theory Spec2Isabelle
  imports
    Main
    "HOL-Library.Sublist"
    "HOL-Library.List_Lexorder"
    "HOL-Library.Product_Lexorder"
    "HOL-Library.Multiset"
begin

section \<open>Text\<close>

text \<open>
  A Python \<open>str\<close> is a sequence of Unicode code points, and SQLite compares and matches
  text code point by code point, so text is a list of code points here. The order on
  lists is the lexicographic one (\<open>List_Lexorder\<close>); on code points it is the order of
  SQLite's default BINARY collation, which compares the UTF-8 bytes.
\<close>

type_synonym uchar = nat
type_synonym ustring = "uchar list"

abbreviation PERCENT :: uchar where "PERCENT \<equiv> 0x25"
abbreviation COMMA :: uchar where "COMMA \<equiv> 0x2C"
abbreviation HYPHEN :: uchar where "HYPHEN \<equiv> 0x2D"
abbreviation UNDERSCORE :: uchar where "UNDERSCORE \<equiv> 0x5F"
abbreviation EN_DASH :: uchar where "EN_DASH \<equiv> 0x2013"
abbreviation EM_DASH :: uchar where "EM_DASH \<equiv> 0x2014"
abbreviation FULLWIDTH_HYPHEN :: uchar where "FULLWIDTH_HYPHEN \<equiv> 0xFF0D"
abbreviation GEN :: uchar where "GEN \<equiv> 0x9650"

text \<open>
  \<open>GEN\<close> is the period suffix U+9650 of \<open>period.endswith(...)\<close>. The weekday choices
  of the search form, in the order of the template's list (Monday to Sunday):
  U+6708, U+706B, U+6C34, U+6728, U+91D1, U+571F, U+65E5.
\<close>

definition weekdays :: "uchar list" where
  "weekdays = [0x6708, 0x706B, 0x6C34, 0x6728, 0x91D1, 0x571F, 0x65E5]"

subsection \<open>Python string methods\<close>

text \<open>
  \<open>str.strip()\<close> removes leading and trailing whitespace; \<open>is_space\<close> lists the code
  points for which CPython's \<open>str.isspace\<close> holds.
\<close>

definition is_space :: "uchar \<Rightarrow> bool" where
  "is_space c \<longleftrightarrow>
     (0x09 \<le> c \<and> c \<le> 0x0D) \<or> (0x1C \<le> c \<and> c \<le> 0x20) \<or> c = 0x85 \<or> c = 0xA0 \<or>
     c = 0x1680 \<or> (0x2000 \<le> c \<and> c \<le> 0x200A) \<or> c = 0x2028 \<or> c = 0x2029 \<or>
     c = 0x202F \<or> c = 0x205F \<or> c = 0x3000"

definition strip :: "ustring \<Rightarrow> ustring" where
  "strip s = rev (dropWhile is_space (rev (dropWhile is_space s)))"

definition endswith :: "ustring \<Rightarrow> ustring \<Rightarrow> bool" where
  "endswith s suf = suffix suf s"

text \<open>\<open>s.replace(old, new)\<close> for one-character \<open>old\<close> and \<open>new\<close>.\<close>

definition replace_char :: "uchar \<Rightarrow> uchar \<Rightarrow> ustring \<Rightarrow> ustring" where
  "replace_char old new s = map (\<lambda>c. if c = old then new else c) s"

text \<open>\<open>s.split(sep)\<close> for a one-character separator: the empty string gives one empty token.\<close>

fun split_on :: "uchar \<Rightarrow> ustring \<Rightarrow> ustring list" where
  "split_on sep [] = [[]]"
| "split_on sep (c # cs) =
     (if c = sep then [] # split_on sep cs
      else (case split_on sep cs of
              w # ws \<Rightarrow> (c # w) # ws
            | [] \<Rightarrow> [[c]]))"

subsection \<open>The normalizer\<close>

text \<open>
  \<open>z2h\<close> calls \<open>unicodedata.normalize("NFKC", s)\<close>. The normalization tables belong to
  the Unicode database, not to this program, so the NFKC function is a parameter \<open>nf\<close>
  of everything that normalizes. \<open>z2h\<close> is the function on Python values (\<open>None\<close> or a
  string), \<open>z2h_text\<close> its restriction to strings, used where the argument is a string.
\<close>

definition z2h_text :: "(ustring \<Rightarrow> ustring) \<Rightarrow> ustring \<Rightarrow> ustring" where
  "z2h_text nf s = (if s \<noteq> [] then nf s else s)"

definition z2h :: "(ustring \<Rightarrow> ustring) \<Rightarrow> ustring option \<Rightarrow> ustring option" where
  "z2h nf x = (case x of None \<Rightarrow> None | Some s \<Rightarrow> Some (z2h_text nf s))"

text \<open>
  For the concrete examples: NFKC on the fullwidth forms U+FF01..U+FF5E (folded to
  U+0021..U+007E) and on the ideographic space; the identity elsewhere. It agrees with
  NFKC on text made of Basic Latin, these forms, the dashes U+2013 and U+2014 and the
  unified CJK ideographs, which is all the examples use.
\<close>

definition fold_fullwidth :: "ustring \<Rightarrow> ustring" where
  "fold_fullwidth s =
     map (\<lambda>c. if 0xFF01 \<le> c \<and> c \<le> 0xFF5E then c - 0xFEE0
               else if c = 0x3000 then 0x20 else c) s"

section \<open>SQLite\<close>

subsection \<open>The LIKE operator\<close>

text \<open>
  The exceptions that the handlers meet: \<open>ValueError\<close> from \<open>int\<close>, \<open>OverflowError\<close> from
  binding an integer, \<open>sqlite3.OperationalError\<close> from running a statement.
\<close>

datatype py_exception = ValueError | OverflowError | OperationalError

text \<open>
  SQLite's built-in LIKE: \<open>%\<close> in the pattern matches any run of characters, \<open>_\<close> any
  one character, any other character matches itself, where two ASCII letters that differ
  only in case are equal (no \<open>PRAGMA case_sensitive_like\<close> is issued and no ESCAPE
  character is given). Pattern and text are read as C strings, up to the first NUL.
\<close>

definition lower_ascii :: "uchar \<Rightarrow> uchar" where
  "lower_ascii c = (if 0x41 \<le> c \<and> c \<le> 0x5A then c + 0x20 else c)"

definition like_eq :: "uchar \<Rightarrow> uchar \<Rightarrow> bool" where
  "like_eq p c \<longleftrightarrow> p = c \<or> (p < 0x80 \<and> c < 0x80 \<and> lower_ascii p = lower_ascii c)"

fun like_match :: "ustring \<Rightarrow> ustring \<Rightarrow> bool" where
  "like_match [] [] = True"
| "like_match [] (c # cs) = False"
| "like_match (p # ps) [] = (p = PERCENT \<and> like_match ps [])"
| "like_match (p # ps) (c # cs) =
     (if p = PERCENT then like_match ps (c # cs) \<or> like_match (p # ps) cs
      else (p = UNDERSCORE \<or> like_eq p c) \<and> like_match ps cs)"

definition cstr :: "ustring \<Rightarrow> ustring" where
  "cstr s = takeWhile (\<lambda>c. c \<noteq> 0) s"

text \<open>
  Before it matches, the LIKE function refuses a pattern of more than 50000 bytes (the
  default \<open>SQLITE_MAX_LIKE_PATTERN_LENGTH\<close>; text is stored as UTF-8) with the error
  \<open>LIKE or GLOB pattern too complex\<close>, which the sqlite3 module raises as
  \<open>OperationalError\<close>. The limit is on the whole pattern, whatever the text.
\<close>

definition utf8_width :: "uchar \<Rightarrow> nat" where
  "utf8_width c = (if c < 0x80 then 1 else if c < 0x800 then 2 else if c < 0x10000 then 3 else 4)"

definition utf8_length :: "ustring \<Rightarrow> nat" where
  "utf8_length s = sum_list (map utf8_width s)"

definition like_pattern_limit :: nat where
  "like_pattern_limit = 50000"

definition sql_like :: "ustring \<Rightarrow> ustring \<Rightarrow> py_exception + bool" where
  "sql_like pat s =
     (if like_pattern_limit < utf8_length pat then Inl OperationalError
      else Inr (like_match (cstr pat) (cstr s)))"


text \<open>Text that LIKE reads literally: no wildcard and no NUL in it.\<close>

definition like_literal :: "ustring \<Rightarrow> bool" where
  "like_literal s \<longleftrightarrow> list_all (\<lambda>c. c \<noteq> PERCENT \<and> c \<noteq> UNDERSCORE \<and> c \<noteq> 0) s"

subsection \<open>The tables\<close>

text \<open>
  A row of \<open>courses\<close>. The six text columns the search reads are written by the seeding
  as \<open>str\<close> values (\<open>astype(str).map(z2h)\<close>), so they are text; the timetable code is
  stored as read from the CSV and may be NULL.
\<close>

record course =
  c_id :: int
  c_title :: ustring
  c_code :: "ustring option"
  c_term :: ustring
  c_instructor :: ustring
  c_faculty :: ustring
  c_slot :: ustring
  c_eval :: ustring

text \<open>
  The table \<open>favorites\<close> is held as the list of its \<open>course_id\<close> values in insertion
  order, one entry per row; its surrogate key \<open>id\<close> is read by no query.
\<close>

record database =
  courses :: "course list"
  favorites :: "int list"

text \<open>
  The sqlite3 module binds a Python \<open>int\<close> as a signed 64-bit INTEGER and raises
  \<open>OverflowError\<close> for any other \<open>int\<close>.
\<close>

definition sqlite_integer :: "int \<Rightarrow> bool" where
  "sqlite_integer i \<longleftrightarrow> - (2 ^ 63) \<le> i \<and> i < 2 ^ 63"

text \<open>\<open>INSERT OR IGNORE INTO favorites(course_id)\<close> under \<open>UNIQUE(course_id)\<close>.\<close>

definition insert_or_ignore :: "int \<Rightarrow> int list \<Rightarrow> int list" where
  "insert_or_ignore cid favs = (if cid \<in> set favs then favs else favs @ [cid])"

text \<open>The conditions that \<open>index\<close> appends to \<open>where\<close>, each with its bound parameters.\<close>

datatype condition =
    Keyword_like ustring
  | Faculty_eq ustring
  | Term_eq ustring
  | Slot_like ustring

text \<open>
  \<open>OR\<close> and \<open>AND\<close> stop at the first operand that decides the value; an error in an
  operand that is evaluated ends the statement.
\<close>

definition or_else :: "py_exception + bool \<Rightarrow> py_exception + bool \<Rightarrow> py_exception + bool" where
  "or_else a b = (case a of Inl e \<Rightarrow> Inl e | Inr v \<Rightarrow> if v then Inr True else b)"

definition and_then :: "py_exception + bool \<Rightarrow> py_exception + bool \<Rightarrow> py_exception + bool" where
  "and_then a b = (case a of Inl e \<Rightarrow> Inl e | Inr v \<Rightarrow> if v then b else Inr False)"

fun holds :: "condition \<Rightarrow> course \<Rightarrow> py_exception + bool" where
  "holds (Keyword_like pat) c =
     or_else (sql_like pat (c_title c))
       (or_else (sql_like pat (c_instructor c)) (sql_like pat (c_eval c)))"
| "holds (Faculty_eq v) c = Inr (c_faculty c = v)"
| "holds (Term_eq v) c = Inr (c_term c = v)"
| "holds (Slot_like pat) c = sql_like pat (c_slot c)"

text \<open>The conditions of the WHERE clause on one row, in the order given.\<close>

fun accepts :: "condition list \<Rightarrow> course \<Rightarrow> py_exception + bool" where
  "accepts [] c = Inr True"
| "accepts (w # ws) c = and_then (holds w c) (accepts ws c)"

text \<open>The rows of the table that the conditions accept; the first error ends the scan.\<close>

fun scan :: "condition list \<Rightarrow> course list \<Rightarrow> py_exception + course list" where
  "scan ws [] = Inr []"
| "scan ws (c # cs) =
     (case accepts ws c of
        Inl e \<Rightarrow> Inl e
      | Inr v \<Rightarrow>
          (case scan ws cs of
             Inl e \<Rightarrow> Inl e
           | Inr rows \<Rightarrow> Inr (if v then c # rows else rows)))"

text \<open>\<open>ORDER BY\<close> faculty, term, slot, title.\<close>

definition order_key :: "course \<Rightarrow> ustring \<times> ustring \<times> ustring \<times> ustring" where
  "order_key c = (c_faculty c, c_term c, c_slot c, c_title c)"

text \<open>
  \<open>SELECT * FROM courses [WHERE w1 AND ... AND wn] ORDER BY ...\<close>: with no condition the
  WHERE clause is left out, which is the empty conjunction. The order in which the
  statement tests the conditions on a row is the query planner's choice (looking rows
  up by an index on a column amounts to testing the condition on that column first);
  it is the parameter \<open>plan\<close>, and \<open>valid_plan\<close> says that the planner tests the
  conditions it is given and no other. SQLite leaves the order of rows with equal keys
  open; here they keep the order of the table.
\<close>

definition valid_plan :: "(condition list \<Rightarrow> condition list) \<Rightarrow> bool" where
  "valid_plan plan \<longleftrightarrow> (\<forall>ws. set (plan ws) = set ws)"

definition execute_select ::
  "(condition list \<Rightarrow> condition list) \<Rightarrow> condition list \<Rightarrow> course list \<Rightarrow>
   py_exception + course list" where
  "execute_select plan wh cs =
     (case scan (plan wh) cs of
        Inl e \<Rightarrow> Inl e
      | Inr rows \<Rightarrow> Inr (sort_key order_key rows))"

section \<open>The search page\<close>

text \<open>The query parameters of a request to \<open>/\<close>; an absent parameter reads as the empty string.\<close>

record request =
  arg_q :: ustring
  arg_faculty :: ustring
  arg_term :: ustring
  arg_weekday :: ustring
  arg_period :: ustring

definition no_filter :: request where
  "no_filter = \<lparr>arg_q = [], arg_faculty = [], arg_term = [], arg_weekday = [], arg_period = []\<rparr>"

text \<open>The value of \<open>q\<close> and of \<open>period\<close> when \<open>index\<close> starts to build the query.\<close>

definition keyword :: "(ustring \<Rightarrow> ustring) \<Rightarrow> request \<Rightarrow> ustring" where
  "keyword nf r = z2h_text nf (strip (arg_q r))"

definition period_token :: "(ustring \<Rightarrow> ustring) \<Rightarrow> request \<Rightarrow> ustring" where
  "period_token nf r =
     (let period = z2h_text nf (strip (arg_period r));
          period = (if endswith period [GEN] then butlast period else period)
      in replace_char EN_DASH HYPHEN
           (replace_char EM_DASH HYPHEN
             (replace_char FULLWIDTH_HYPHEN HYPHEN period)))"

definition build_where :: "(ustring \<Rightarrow> ustring) \<Rightarrow> request \<Rightarrow> condition list" where
  "build_where nf r =
     (let q = keyword nf r;
          faculty = strip (arg_faculty r);
          term = strip (arg_term r);
          weekday = strip (arg_weekday r);
          period = period_token nf r
      in (if q \<noteq> [] then [Keyword_like ([PERCENT] @ q @ [PERCENT])] else []) @
         (if faculty \<noteq> [] then [Faculty_eq faculty] else []) @
         (if term \<noteq> [] then [Term_eq term] else []) @
         (if weekday \<noteq> [] then [Slot_like (weekday @ [PERCENT])] else []) @
         (if period \<noteq> [] then [Slot_like ([PERCENT] @ period @ [PERCENT])] else []))"

record index_view =
  view_courses :: "(course \<times> bool) list"
  view_faculties :: "ustring list"
  view_terms :: "ustring list"
  view_total :: nat

text \<open>
  \<open>index\<close> catches nothing: an exception of the query leaves the handler, and no page
  is built.
\<close>

definition index ::
  "(condition list \<Rightarrow> condition list) \<Rightarrow> (ustring \<Rightarrow> ustring) \<Rightarrow> database \<Rightarrow> request \<Rightarrow>
   py_exception + index_view" where
  "index plan nf db r =
     (case execute_select plan (build_where nf r) (courses db) of
        Inl e \<Rightarrow> Inl e
      | Inr rows \<Rightarrow>
          (let enriched = map (\<lambda>c. (c, c_id c \<in> set (favorites db))) rows
           in Inr \<lparr>view_courses = enriched,
                   view_faculties =
                     sort (remdups (filter (\<lambda>v. v \<noteq> []) (map c_faculty (courses db)))),
                   view_terms =
                     sort (remdups (filter (\<lambda>v. v \<noteq> []) (map c_term (courses db)))),
                   view_total = length enriched\<rparr>))"

text \<open>What a search gives: the courses of the result page in the order shown, or the exception.\<close>

definition search ::
  "(condition list \<Rightarrow> condition list) \<Rightarrow> (ustring \<Rightarrow> ustring) \<Rightarrow> database \<Rightarrow> request \<Rightarrow>
   py_exception + course list" where
  "search plan nf db r =
     (case index plan nf db r of Inl e \<Rightarrow> Inl e | Inr v \<Rightarrow> Inr (map fst (view_courses v)))"

text \<open>
  The courses a search finds: those of the result page, none when the search ends in
  the exception. The conditions are tested in the order written; any other valid plan
  gives a page with the same courses whenever it gives a page (lemma \<open>search_found\<close>).
\<close>

definition found :: "(ustring \<Rightarrow> ustring) \<Rightarrow> database \<Rightarrow> request \<Rightarrow> course list" where
  "found nf db r = (case search (\<lambda>ws. ws) nf db r of Inl e \<Rightarrow> [] | Inr rows \<Rightarrow> rows)"

section \<open>Favorites\<close>

datatype flash =
    Added
  | Add_failed py_exception
  | Removed
  | Nothing_selected
  | Bulk_added nat
  | Cleared

text \<open>
  \<open>favorite\<close> catches every exception of the insert and reports it; no exception leaves
  the handler.
\<close>

definition favorite :: "database \<Rightarrow> int \<Rightarrow> flash \<times> database" where
  "favorite db course_id =
     (if sqlite_integer course_id
      then (Added, db\<lparr>favorites := insert_or_ignore course_id (favorites db)\<rparr>)
      else (Add_failed OverflowError, db))"

definition unfavorite :: "database \<Rightarrow> int \<Rightarrow> py_exception + flash \<times> database" where
  "unfavorite db course_id =
     (if sqlite_integer course_id
      then Inr (Removed, db\<lparr>favorites := filter (\<lambda>x. x \<noteq> course_id) (favorites db)\<rparr>)
      else Inl OverflowError)"

definition clear_favs :: "database \<Rightarrow> flash \<times> database" where
  "clear_favs db = (Cleared, db\<lparr>favorites := []\<rparr>)"

text \<open>
  \<open>str.isdigit\<close> asks for a non-empty string of characters whose Unicode numeric type is
  Digit or Decimal; \<open>int\<close> reads decimal digits only. Both tables belong to the Unicode
  database and are parameters. A token that passes \<open>isdigit\<close> holds no sign, blank or
  underscore, so \<open>int\<close> succeeds on it exactly when each character has a decimal value.
\<close>

record digit_tables =
  is_digit :: "uchar \<Rightarrow> bool"
  decimal :: "uchar \<Rightarrow> nat option"

definition isdigit :: "digit_tables \<Rightarrow> ustring \<Rightarrow> bool" where
  "isdigit D x \<longleftrightarrow> x \<noteq> [] \<and> list_all (is_digit D) x"

definition py_int :: "digit_tables \<Rightarrow> ustring \<Rightarrow> py_exception + int" where
  "py_int D x =
     (if x \<noteq> [] \<and> list_all (\<lambda>c. decimal D c \<noteq> None) x
      then Inr (foldl (\<lambda>a c. 10 * a + int (the (decimal D c))) 0 x)
      else Inl ValueError)"

text \<open>\<open>[int(x) for x in tokens if x.isdigit()]\<close>: the first failing \<open>int\<close> ends the loop.\<close>

fun int_list :: "digit_tables \<Rightarrow> ustring list \<Rightarrow> py_exception + int list" where
  "int_list D [] = Inr []"
| "int_list D (x # xs) =
     (if isdigit D x
      then (case py_int D x of
              Inl e \<Rightarrow> Inl e
            | Inr i \<Rightarrow> (case int_list D xs of Inl e \<Rightarrow> Inl e | Inr is \<Rightarrow> Inr (i # is)))
      else int_list D xs)"

text \<open>
  \<open>executemany\<close> inserts the ids in order inside one transaction. An id that SQLite
  cannot hold raises before the commit, the exception leaves the handler, and closing
  the connection rolls the transaction back: the stored favorites are as before.
\<close>

definition bulk_fav :: "digit_tables \<Rightarrow> database \<Rightarrow> ustring \<Rightarrow> py_exception + flash \<times> database" where
  "bulk_fav D db form_ids =
     (let ids = strip form_ids
      in if ids = [] then Inr (Nothing_selected, db)
         else (case int_list D (split_on COMMA ids) of
                 Inl e \<Rightarrow> Inl e
               | Inr id_list \<Rightarrow>
                   if list_all sqlite_integer id_list
                   then Inr (Bulk_added (length id_list),
                             db\<lparr>favorites := fold insert_or_ignore id_list (favorites db)\<rparr>)
                   else Inl OverflowError))"

text \<open>
  \<open>SELECT c.* FROM courses c JOIN favorites f ON f.course_id = c.id ORDER BY ...\<close>: one
  row for each pair of a course and a favorite that refers to it.
\<close>

definition join_favorites :: "course list \<Rightarrow> int list \<Rightarrow> course list" where
  "join_favorites cs favs =
     concat (map (\<lambda>c. map (\<lambda>f. c) (filter (\<lambda>f. f = c_id c) favs)) cs)"

record mypage_view =
  page_courses :: "course list"
  page_total :: nat

definition mypage :: "database \<Rightarrow> mypage_view" where
  "mypage db =
     (let rows = sort_key order_key (join_favorites (courses db) (favorites db))
      in \<lparr>page_courses = rows, page_total = length rows\<rparr>)"

section \<open>Notions of the specification\<close>

text \<open>
  A course passes a condition when the condition is true of it. \<open>select_courses\<close>
  gives the courses that pass every condition, in the order of the result.
\<close>

definition passes :: "condition \<Rightarrow> course \<Rightarrow> bool" where
  "passes w c \<longleftrightarrow> holds w c = Inr True"

definition select_courses :: "condition list \<Rightarrow> course list \<Rightarrow> course list" where
  "select_courses wh cs = sort_key order_key (filter (\<lambda>c. list_all (\<lambda>w. passes w c) wh) cs)"

text \<open>The LIKE patterns of a request are within SQLite's limit.\<close>

fun pattern_ok :: "condition \<Rightarrow> bool" where
  "pattern_ok (Keyword_like pat) = (utf8_length pat \<le> like_pattern_limit)"
| "pattern_ok (Slot_like pat) = (utf8_length pat \<le> like_pattern_limit)"
| "pattern_ok (Faculty_eq v) = True"
| "pattern_ok (Term_eq v) = True"

definition patterns_in_limit :: "(ustring \<Rightarrow> ustring) \<Rightarrow> request \<Rightarrow> bool" where
  "patterns_in_limit nf r = list_all pattern_ok (build_where nf r)"

text \<open>
  The period token in the specification's words: the normalized value, one trailing
  \<open>GEN\<close> taken off, every dash glyph turned into a plain hyphen.
\<close>

definition spec_period_token :: "(ustring \<Rightarrow> ustring) \<Rightarrow> ustring \<Rightarrow> ustring" where
  "spec_period_token nf raw =
     (let p = z2h_text nf (strip raw);
          p = (if p \<noteq> [] \<and> last p = GEN then butlast p else p)
      in map (\<lambda>c. if c = FULLWIDTH_HYPHEN \<or> c = EN_DASH \<or> c = EM_DASH then HYPHEN else c) p)"

text \<open>
  A request \<open>r'\<close> extends \<open>r\<close> when it keeps every parameter that \<open>r\<close> gives and may
  give parameters that \<open>r\<close> leaves empty.
\<close>

definition extends :: "request \<Rightarrow> request \<Rightarrow> bool" where
  "extends r r' \<longleftrightarrow>
     (arg_q r = [] \<or> arg_q r' = arg_q r) \<and>
     (arg_faculty r = [] \<or> arg_faculty r' = arg_faculty r) \<and>
     (arg_term r = [] \<or> arg_term r' = arg_term r) \<and>
     (arg_weekday r = [] \<or> arg_weekday r' = arg_weekday r) \<and>
     (arg_period r = [] \<or> arg_period r' = arg_period r)"

text \<open>Course \<open>a\<close> may stand before course \<open>b\<close>: faculty, then term, then slot, then title.\<close>

definition in_order :: "course \<Rightarrow> course \<Rightarrow> bool" where
  "in_order a b \<longleftrightarrow>
     c_faculty a < c_faculty b \<or>
     (c_faculty a = c_faculty b \<and>
       (c_term a < c_term b \<or>
        (c_term a = c_term b \<and>
          (c_slot a < c_slot b \<or>
           (c_slot a = c_slot b \<and> c_title a \<le> c_title b)))))"

text \<open>A favorite without its course.\<close>

definition orphaned :: "database \<Rightarrow> int \<Rightarrow> bool" where
  "orphaned db cid \<longleftrightarrow> cid \<in> set (favorites db) \<and> cid \<notin> c_id ` set (courses db)"

text \<open>
  The requests that write favorites, and the store after one of them: a request that
  ends in an exception commits nothing.
\<close>

datatype operation = Add int | Remove int | Bulk_add ustring | Clear

fun after :: "digit_tables \<Rightarrow> operation \<Rightarrow> database \<Rightarrow> database" where
  "after D (Add cid) db = snd (favorite db cid)"
| "after D (Remove cid) db = (case unfavorite db cid of Inl e \<Rightarrow> db | Inr (msg, db') \<Rightarrow> db')"
| "after D (Bulk_add ids) db = (case bulk_fav D db ids of Inl e \<Rightarrow> db | Inr (msg, db') \<Rightarrow> db')"
| "after D Clear db = snd (clear_favs db)"

definition run :: "digit_tables \<Rightarrow> operation list \<Rightarrow> database \<Rightarrow> database" where
  "run D ops db = fold (after D) ops db"

section \<open>Sample data\<close>

text \<open>
  The digit tables on Basic Latin, on the superscript digits U+00B2, U+00B3 and U+00B9
  (numeric type Digit, no decimal value) and on the fullwidth digits; no other code
  point occurs in the examples.
\<close>

definition sample_digits :: digit_tables where
  "sample_digits =
     \<lparr>is_digit = (\<lambda>c. (0x30 \<le> c \<and> c \<le> 0x39) \<or> c = 0xB2 \<or> c = 0xB3 \<or> c = 0xB9 \<or>
                       (0xFF10 \<le> c \<and> c \<le> 0xFF19)),
      decimal = (\<lambda>c. if 0x30 \<le> c \<and> c \<le> 0x39 then Some (c - 0x30)
                     else if 0xFF10 \<le> c \<and> c \<le> 0xFF19 then Some (c - 0xFF10)
                     else None)\<rparr>"

text \<open>
  Two courses that differ in weekday: \<open>Web\<close> on Monday, periods 3-4, and accounting on
  Tuesday, periods 3-4. Favorite 7 refers to no course.
\<close>

definition course_mon :: course where
  "course_mon =
     \<lparr>c_id = 1, c_title = [0x57, 0x65, 0x62], c_code = Some [0x41, 0x30, 0x30, 0x31],
      c_term = [0x6625], c_instructor = [0x9234, 0x6728], c_faculty = [0x7D4C, 0x55B6],
      c_slot = [0x6708, 0x33, 0x2D, 0x34], c_eval = []\<rparr>"

definition course_tue :: course where
  "course_tue =
     \<lparr>c_id = 2, c_title = [0x4F1A, 0x8A08, 0x5B66], c_code = Some [0x41, 0x30, 0x30, 0x32],
      c_term = [0x6625], c_instructor = [0x7530, 0x4E2D], c_faculty = [0x7D4C, 0x55B6],
      c_slot = [0x706B, 0x33, 0x2D, 0x34], c_eval = []\<rparr>"

definition sample_db :: database where
  "sample_db = \<lparr>courses = [course_tue, course_mon], favorites = [2, 7]\<rparr>"

definition empty_db :: database where
  "empty_db = \<lparr>courses = [], favorites = []\<rparr>"

section \<open>Lemmas\<close>

subsection \<open>LIKE\<close>


lemma like_match_percent_only [simp]: "like_match [PERCENT] s"
  by (induction s) auto

lemma like_literal_Cons:
  "like_literal (k # kw) \<longleftrightarrow> k \<noteq> PERCENT \<and> k \<noteq> UNDERSCORE \<and> k \<noteq> 0 \<and> like_literal kw"
  by (simp add: like_literal_def)




lemma cstr_literal: "like_literal s \<Longrightarrow> cstr s = s"
  by (induction s) (simp_all add: like_literal_Cons cstr_def)


lemma sql_like_True:
  "sql_like pat s = Inr True \<longleftrightarrow>
     utf8_length pat \<le> like_pattern_limit \<and> like_match (cstr pat) (cstr s)"
  by (simp add: sql_like_def)


subsection \<open>Conditions and the scan of the table\<close>

lemma holds_ok: "pattern_ok w \<Longrightarrow> holds w c = Inr (passes w c)"
  by (cases w) (auto simp: passes_def or_else_def sql_like_def)

lemma holds_refused: "\<not> pattern_ok w \<Longrightarrow> holds w c = Inl OperationalError"
  by (cases w) (auto simp: or_else_def sql_like_def)

lemma passes_pattern_ok: "passes w c \<Longrightarrow> pattern_ok w"
  using holds_refused [of w c] by (auto simp: passes_def)

lemma passes_Keyword:
  "passes (Keyword_like pat) c \<longleftrightarrow>
     sql_like pat (c_title c) = Inr True \<or> sql_like pat (c_instructor c) = Inr True \<or>
     sql_like pat (c_eval c) = Inr True"
  by (auto simp: passes_def or_else_def sql_like_def split: if_splits)

lemma passes_Slot: "passes (Slot_like pat) c \<longleftrightarrow> sql_like pat (c_slot c) = Inr True"
  by (simp add: passes_def)

lemma passes_Faculty: "passes (Faculty_eq v) c \<longleftrightarrow> c_faculty c = v"
  by (simp add: passes_def)

lemma passes_Term: "passes (Term_eq v) c \<longleftrightarrow> c_term c = v"
  by (simp add: passes_def)

lemmas passes_simps = passes_Keyword passes_Slot passes_Faculty passes_Term

lemma accepts_ok:
  "list_all pattern_ok ws \<Longrightarrow> accepts ws c = Inr (list_all (\<lambda>w. passes w c) ws)"
  by (induction ws) (simp_all add: and_then_def holds_ok)

lemma accepts_True: "accepts ws c = Inr True \<longleftrightarrow> list_all (\<lambda>w. passes w c) ws"
  by (induction ws) (auto simp: and_then_def passes_def split: sum.splits if_splits)

lemma accepts_error_value: "accepts ws c = Inl e \<Longrightarrow> e = OperationalError"
proof (induction ws)
  case Nil
  then show ?case by simp
next
  case (Cons w ws)
  show ?case
  proof (cases "pattern_ok w")
    case True
    with Cons show ?thesis
      by (auto simp: and_then_def holds_ok split: if_splits)
  next
    case False
    with Cons.prems show ?thesis
      by (simp add: and_then_def holds_refused)
  qed
qed

lemma accepts_error:
  "accepts ws c = Inl e \<Longrightarrow> e = OperationalError \<and> \<not> list_all pattern_ok ws"
  using accepts_ok [of ws c] accepts_error_value [of ws c e]
  by (cases "list_all pattern_ok ws") auto

lemma scan_rows:
  "scan ws cs = Inr rows \<Longrightarrow> rows = filter (\<lambda>c. list_all (\<lambda>w. passes w c) ws) cs"
proof (induction cs arbitrary: rows)
  case Nil
  then show ?case by simp
next
  case (Cons c cs)
  from Cons.prems obtain v rows' where
    v: "accepts ws c = Inr v" and r: "scan ws cs = Inr rows'"
    and rows: "rows = (if v then c # rows' else rows')"
    by (auto split: sum.splits)
  have "v \<longleftrightarrow> list_all (\<lambda>w. passes w c) ws"
    using v accepts_True [of ws c] by (cases v) auto
  with Cons.IH [OF r] rows show ?case by simp
qed

lemma scan_ok:
  "list_all pattern_ok ws \<Longrightarrow>
   scan ws cs = Inr (filter (\<lambda>c. list_all (\<lambda>w. passes w c) ws) cs)"
  by (induction cs) (simp_all add: accepts_ok)

lemma scan_error:
  "scan ws cs = Inl e \<Longrightarrow> e = OperationalError \<and> \<not> list_all pattern_ok ws"
  using scan_ok [of ws cs]
proof (induction cs)
  case Nil
  then show ?case by simp
next
  case (Cons c cs)
  then show ?case
    by (cases "list_all pattern_ok ws") (auto split: sum.splits dest: accepts_error_value)
qed

lemma select_courses_cong_set:
  "set ws' = set ws \<Longrightarrow> select_courses ws' cs = select_courses ws cs"
  by (simp add: select_courses_def list_all_iff)

lemma refused_selects_nothing:
  assumes "\<not> list_all pattern_ok ws"
  shows "select_courses ws cs = []"
proof -
  from assms obtain w where w: "w \<in> set ws" "\<not> pattern_ok w"
    by (auto simp: list_all_iff)
  then have "\<not> list_all (\<lambda>w. passes w c) ws" for c
    using passes_pattern_ok [of w c] by (auto simp: list_all_iff)
  then show ?thesis
    by (simp add: select_courses_def)
qed

lemma valid_plan_all: "valid_plan plan \<Longrightarrow> list_all P (plan ws) \<longleftrightarrow> list_all P ws"
  by (simp add: valid_plan_def list_all_iff)

lemma execute_select_rows:
  assumes "valid_plan plan" and "execute_select plan ws cs = Inr rows"
  shows "rows = select_courses ws cs"
proof -
  from assms(2) obtain rows' where s: "scan (plan ws) cs = Inr rows'"
    and rows: "rows = sort_key order_key rows'"
    by (auto simp: execute_select_def split: sum.splits)
  from scan_rows [OF s] rows show ?thesis
    by (simp add: select_courses_def valid_plan_all [OF assms(1)])
qed


lemma execute_select_error:
  assumes "valid_plan plan" and "execute_select plan ws cs = Inl e"
  shows "e = OperationalError \<and> \<not> list_all pattern_ok ws"
proof -
  from assms(2) have "scan (plan ws) cs = Inl e"
    by (auto simp: execute_select_def split: sum.splits)
  from scan_error [OF this] show ?thesis
    by (simp add: valid_plan_all [OF assms(1)])
qed

subsection \<open>The search result\<close>

lemma search_execute: "search plan nf db r = execute_select plan (build_where nf r) (courses db)"
  by (simp add: search_def index_def Let_def comp_def split: sum.splits)

lemma valid_plan_written: "valid_plan (\<lambda>ws. ws)"
  by (simp add: valid_plan_def)

lemma found_select: "found nf db r = select_courses (build_where nf r) (courses db)"
proof (cases "execute_select (\<lambda>ws. ws) (build_where nf r) (courses db)")
  case (Inl e)
  from execute_select_error [OF valid_plan_written Inl]
  have "select_courses (build_where nf r) (courses db) = []"
    by (simp add: refused_selects_nothing)
  with Inl show ?thesis by (simp add: found_def search_execute)
next
  case (Inr rows)
  from execute_select_rows [OF valid_plan_written Inr] Inr show ?thesis
    by (simp add: found_def search_execute)
qed

text \<open>
  Whatever the plan: a search that returns shows the courses found; it returns when
  the patterns are within the limit; otherwise it raises or shows nothing.
\<close>

lemma search_found:
  "valid_plan plan \<Longrightarrow> search plan nf db r = Inr rows \<Longrightarrow> rows = found nf db r"
  by (simp add: search_execute found_select execute_select_rows)



text \<open>
  When the only condition of a request carries a pattern beyond the limit and the table
  has a row, every plan tests the pattern on that row: the search raises.
\<close>

lemma single_pattern_refused:
  assumes "valid_plan plan" and "build_where nf r = [w]" and "\<not> pattern_ok w"
    and "courses db \<noteq> []"
  shows "search plan nf db r = Inl OperationalError"
proof -
  have "set (plan [w]) = {w}"
    using assms(1) by (simp add: valid_plan_def)
  then obtain ws where p: "plan [w] = w # ws"
    by (cases "plan [w]") auto
  obtain c cs where cs: "courses db = c # cs"
    using assms(4) by (cases "courses db") auto
  have "accepts (w # ws) c = Inl OperationalError"
    by (simp add: and_then_def holds_refused [OF assms(3)])
  then show ?thesis
    by (simp add: search_execute execute_select_def assms(2) p cs)
qed

lemma index_found:
  assumes "valid_plan plan" and "index plan nf db r = Inr v"
  shows "map fst (view_courses v) = found nf db r \<and> view_total v = length (found nf db r)"
proof -
  from assms(2) have s: "search plan nf db r = Inr (map fst (view_courses v))"
    by (simp add: search_def)
  from assms(2) have t: "view_total v = length (view_courses v)"
    by (auto simp: index_def Let_def split: sum.splits)
  from search_found [OF assms(1) s] t show ?thesis
    by (metis length_map)
qed

lemma select_courses_append:
  "select_courses (ws @ vs) cs = filter (\<lambda>c. list_all (\<lambda>w. passes w c) vs) (select_courses ws cs)"
  by (simp add: select_courses_def filter_sort conj_commute)

lemma set_select_courses:
  "set (select_courses ws cs) = {c \<in> set cs. \<forall>w \<in> set ws. passes w c}"
  by (auto simp: select_courses_def list_all_iff)

lemma strip_Nil [simp]: "strip [] = []"
  by (simp add: strip_def)

lemma z2h_text_Nil [simp]: "z2h_text nf [] = []"
  by (simp add: z2h_text_def)

lemma keyword_empty: "arg_q r = [] \<Longrightarrow> keyword nf r = []"
  by (simp add: keyword_def)

lemma period_token_empty: "arg_period r = [] \<Longrightarrow> period_token nf r = []"
  by (simp add: period_token_def endswith_def replace_char_def)

lemma build_where_split_q:
  "build_where nf r =
     (if keyword nf r \<noteq> [] then [Keyword_like ([PERCENT] @ keyword nf r @ [PERCENT])] else []) @
     build_where nf (r\<lparr>arg_q := []\<rparr>)"
  by (simp add: build_where_def Let_def keyword_def period_token_def)


lemma select_courses_Cons:
  "select_courses (w # ws) cs = filter (passes w) (select_courses ws cs)"
  by (simp add: select_courses_def filter_sort conj_commute)


lemma select_courses_insert:
  assumes "set ws' = insert w (set ws)"
  shows "select_courses ws' cs = filter (passes w) (select_courses ws cs)"
proof -
  have "select_courses ws' cs = select_courses (w # ws) cs"
    by (rule select_courses_cong_set) (simp add: assms)
  then show ?thesis by (simp add: select_courses_Cons)
qed

lemma period_token_spec: "period_token nf r = spec_period_token nf (arg_period r)"
proof -
  have "endswith p [GEN] \<longleftrightarrow> p \<noteq> [] \<and> last p = GEN" for p
    by (cases p rule: rev_cases) (simp_all add: endswith_def)
  then show ?thesis
    by (simp add: period_token_def spec_period_token_def Let_def replace_char_def)
qed

subsection \<open>Evaluating the examples\<close>

lemmas request_eval =
  found_select select_courses_def build_where_def keyword_def period_token_def z2h_text_def
  strip_def is_space_def fold_fullwidth_def endswith_def suffix_to_prefix replace_char_def
  Let_def no_filter_def sample_db_def course_mon_def course_tue_def order_key_def

lemmas like_eval =
  passes_simps sql_like_True utf8_length_def utf8_width_def like_pattern_limit_def
  cstr_def like_eq_def lower_ascii_def

section \<open>The claims\<close>

subsection \<open>The keyword filter\<close>

lemma patterns_without_q:
  "patterns_in_limit nf r \<Longrightarrow> patterns_in_limit nf (r\<lparr>arg_q := []\<rparr>)"
  using build_where_split_q [of nf r] by (simp add: patterns_in_limit_def)





subsection \<open>The period filter\<close>

lemma like_match_any [simp]: "like_match [PERCENT, PERCENT] s"
  by (induction s) simp_all





text \<open>
  A period of 49999 digits \<open>3\<close> makes a pattern of 50001 bytes: on a catalog with a
  course the search raises, under every plan.
\<close>

lemma long_period_raises:
  assumes "valid_plan plan"
  shows "search plan fold_fullwidth sample_db (no_filter\<lparr>arg_period := replicate 49999 0x33\<rparr>) =
         Inl OperationalError"
proof (rule single_pattern_refused [OF assms])
  have t: "period_token fold_fullwidth (no_filter\<lparr>arg_period := replicate 49999 0x33\<rparr>) =
        replicate 49999 0x33"
    by (simp add: period_token_spec spec_period_token_def z2h_text_def strip_def is_space_def
        fold_fullwidth_def Let_def no_filter_def)
  show "build_where fold_fullwidth (no_filter\<lparr>arg_period := replicate 49999 0x33\<rparr>) =
        [Slot_like (PERCENT # replicate 49999 0x33 @ [PERCENT])]"
    by (simp add: build_where_def Let_def t) (simp add: keyword_def no_filter_def)
  show "\<not> pattern_ok (Slot_like (PERCENT # replicate 49999 0x33 @ [PERCENT]))"
    by (simp add: utf8_length_def utf8_width_def like_pattern_limit_def sum_list_replicate)
  show "courses sample_db \<noteq> []"
    by (simp add: sample_db_def)
qed

subsection \<open>Combining the filters\<close>

lemma ball_optional: "(\<forall>w \<in> set (if b then [x] else []). P w) \<longleftrightarrow> \<not> b \<or> P x"
  by (cases b) simp_all

lemma passes_build_where:
  "(\<forall>w \<in> set (build_where nf r). passes w c) \<longleftrightarrow>
     (keyword nf r = [] \<or>
        sql_like (PERCENT # keyword nf r @ [PERCENT]) (c_title c) = Inr True \<or>
        sql_like (PERCENT # keyword nf r @ [PERCENT]) (c_instructor c) = Inr True \<or>
        sql_like (PERCENT # keyword nf r @ [PERCENT]) (c_eval c) = Inr True) \<and>
     (strip (arg_faculty r) = [] \<or> c_faculty c = strip (arg_faculty r)) \<and>
     (strip (arg_term r) = [] \<or> c_term c = strip (arg_term r)) \<and>
     (strip (arg_weekday r) = [] \<or>
        sql_like (strip (arg_weekday r) @ [PERCENT]) (c_slot c) = Inr True) \<and>
     (period_token nf r = [] \<or>
        sql_like (PERCENT # period_token nf r @ [PERCENT]) (c_slot c) = Inr True)"
  unfolding build_where_def Let_def set_append ball_Un ball_optional
  by (simp add: passes_simps)

lemma found_conjunction:
  "c \<in> set (found nf db r) \<longleftrightarrow>
     c \<in> set (courses db) \<and>
     (keyword nf r = [] \<or>
        sql_like (PERCENT # keyword nf r @ [PERCENT]) (c_title c) = Inr True \<or>
        sql_like (PERCENT # keyword nf r @ [PERCENT]) (c_instructor c) = Inr True \<or>
        sql_like (PERCENT # keyword nf r @ [PERCENT]) (c_eval c) = Inr True) \<and>
     (strip (arg_faculty r) = [] \<or> c_faculty c = strip (arg_faculty r)) \<and>
     (strip (arg_term r) = [] \<or> c_term c = strip (arg_term r)) \<and>
     (strip (arg_weekday r) = [] \<or>
        sql_like (strip (arg_weekday r) @ [PERCENT]) (c_slot c) = Inr True) \<and>
     (period_token nf r = [] \<or>
        sql_like (PERCENT # period_token nf r @ [PERCENT]) (c_slot c) = Inr True)"
  unfolding found_select set_select_courses passes_build_where
  by simp

lemma found_mono:
  assumes "extends r r'"
  shows "set (found nf db r') \<subseteq> set (found nf db r)"
proof
  fix c
  assume c: "c \<in> set (found nf db r')"
  have q: "keyword nf r = [] \<or> keyword nf r' = keyword nf r"
    using assms by (auto simp: extends_def keyword_def)
  have f: "strip (arg_faculty r) = [] \<or> arg_faculty r' = arg_faculty r"
    using assms by (auto simp: extends_def)
  have t: "strip (arg_term r) = [] \<or> arg_term r' = arg_term r"
    using assms by (auto simp: extends_def)
  have w: "strip (arg_weekday r) = [] \<or> arg_weekday r' = arg_weekday r"
    using assms by (auto simp: extends_def)
  have p: "period_token nf r = [] \<or> period_token nf r' = period_token nf r"
    using assms period_token_empty [of r nf] by (auto simp: extends_def period_token_def)
  from c have c': "c \<in> set (courses db)"
    and cq: "keyword nf r' = [] \<or>
        sql_like (PERCENT # keyword nf r' @ [PERCENT]) (c_title c) = Inr True \<or>
        sql_like (PERCENT # keyword nf r' @ [PERCENT]) (c_instructor c) = Inr True \<or>
        sql_like (PERCENT # keyword nf r' @ [PERCENT]) (c_eval c) = Inr True"
    and cf: "strip (arg_faculty r') = [] \<or> c_faculty c = strip (arg_faculty r')"
    and ct: "strip (arg_term r') = [] \<or> c_term c = strip (arg_term r')"
    and cw: "strip (arg_weekday r') = [] \<or>
        sql_like (strip (arg_weekday r') @ [PERCENT]) (c_slot c) = Inr True"
    and cp: "period_token nf r' = [] \<or>
        sql_like (PERCENT # period_token nf r' @ [PERCENT]) (c_slot c) = Inr True"
    unfolding found_conjunction by blast+
  have 1: "keyword nf r = [] \<or>
        sql_like (PERCENT # keyword nf r @ [PERCENT]) (c_title c) = Inr True \<or>
        sql_like (PERCENT # keyword nf r @ [PERCENT]) (c_instructor c) = Inr True \<or>
        sql_like (PERCENT # keyword nf r @ [PERCENT]) (c_eval c) = Inr True"
    using q cq by metis
  have 2: "strip (arg_faculty r) = [] \<or> c_faculty c = strip (arg_faculty r)"
    using f cf by metis
  have 3: "strip (arg_term r) = [] \<or> c_term c = strip (arg_term r)"
    using t ct by metis
  have 4: "strip (arg_weekday r) = [] \<or>
        sql_like (strip (arg_weekday r) @ [PERCENT]) (c_slot c) = Inr True"
    using w cw by metis
  have 5: "period_token nf r = [] \<or>
        sql_like (PERCENT # period_token nf r @ [PERCENT]) (c_slot c) = Inr True"
    using p cp by metis
  show "c \<in> set (found nf db r)"
    unfolding found_conjunction using c' 1 2 3 4 5 by blast
qed

lemma build_where_no_filter: "build_where nf no_filter = []"
  by (simp add: build_where_def Let_def no_filter_def keyword_def period_token_def
      endswith_def replace_char_def)

lemma found_no_filter: "found nf db no_filter = sort_key order_key (courses db)"
  by (simp add: found_select build_where_no_filter select_courses_def)

text \<open>
  C3. For a fixed catalog, a request that extends another (it populates fields the other
  leaves empty and keeps the rest) finds a subset of what the other finds; a course is
  found exactly when it is in the catalog and passes every filter that is provided, the
  filters being combined by conjunction; a request without filters returns every course.
\<close>

theorem filters_conjunctive:
  "(extends r r' \<longrightarrow> set (found nf db r') \<subseteq> set (found nf db r)) \<and>
   (c \<in> set (found nf db r) \<longleftrightarrow>
      c \<in> set (courses db) \<and>
      (keyword nf r = [] \<or>
         sql_like (PERCENT # keyword nf r @ [PERCENT]) (c_title c) = Inr True \<or>
         sql_like (PERCENT # keyword nf r @ [PERCENT]) (c_instructor c) = Inr True \<or>
         sql_like (PERCENT # keyword nf r @ [PERCENT]) (c_eval c) = Inr True) \<and>
      (strip (arg_faculty r) = [] \<or> c_faculty c = strip (arg_faculty r)) \<and>
      (strip (arg_term r) = [] \<or> c_term c = strip (arg_term r)) \<and>
      (strip (arg_weekday r) = [] \<or>
         sql_like (strip (arg_weekday r) @ [PERCENT]) (c_slot c) = Inr True) \<and>
      (period_token nf r = [] \<or>
         sql_like (PERCENT # period_token nf r @ [PERCENT]) (c_slot c) = Inr True)) \<and>
   mset (found nf db no_filter) = mset (courses db)"
proof (intro conjI impI)
  show "set (found nf db r') \<subseteq> set (found nf db r)" if "extends r r'"
    using that by (rule found_mono)
  show "mset (found nf db no_filter) = mset (courses db)"
    by (simp add: found_no_filter)
qed (rule found_conjunction)

theorem filters_conjunctive_witness:
  "extends no_filter (no_filter\<lparr>arg_weekday := [0x6708]\<rparr>) \<and>
   set (found fold_fullwidth sample_db (no_filter\<lparr>arg_weekday := [0x6708]\<rparr>)) \<subseteq>
     set (found fold_fullwidth sample_db no_filter) \<and>
   found fold_fullwidth sample_db (no_filter\<lparr>arg_weekday := [0x6708]\<rparr>) = [course_mon] \<and>
   found fold_fullwidth sample_db no_filter = [course_mon, course_tue]"
proof -
  have e: "extends no_filter (no_filter\<lparr>arg_weekday := [0x6708]\<rparr>)"
    by (simp add: extends_def no_filter_def)
  have a: "found fold_fullwidth sample_db (no_filter\<lparr>arg_weekday := [0x6708]\<rparr>) = [course_mon]"
    by (simp add: request_eval like_eval)
  have b: "found fold_fullwidth sample_db no_filter = [course_mon, course_tue]"
    by (simp add: request_eval like_eval)
  from filters_conjunctive [of no_filter "no_filter\<lparr>arg_weekday := [0x6708]\<rparr>"
      fold_fullwidth sample_db] e
  have "set (found fold_fullwidth sample_db (no_filter\<lparr>arg_weekday := [0x6708]\<rparr>)) \<subseteq>
     set (found fold_fullwidth sample_db no_filter)"
    by blast
  with e a b show ?thesis by blast
qed

subsection \<open>The weekday filter\<close>

lemma weekday_not_space: "wd \<in> set weekdays \<Longrightarrow> strip [wd] = [wd]"
  by (auto simp: weekdays_def strip_def is_space_def)

lemma weekday_prefix:
  assumes "wd \<in> set weekdays"
  shows "sql_like [wd, PERCENT] s = Inr True \<longleftrightarrow> prefix [wd] s"
proof -
  have wd: "wd \<noteq> 0" "wd \<noteq> PERCENT" "wd \<noteq> UNDERSCORE" "\<not> wd < 0x80"
    using assms by (auto simp: weekdays_def)
  have len: "utf8_length [wd, PERCENT] \<le> like_pattern_limit"
    by (simp add: utf8_length_def utf8_width_def like_pattern_limit_def)
  show ?thesis
  proof (cases s)
    case Nil
    then show ?thesis using wd len by (simp add: sql_like_True cstr_def)
  next
    case (Cons c cs)
    then show ?thesis using wd len by (auto simp: sql_like_True cstr_def like_eq_def)
  qed
qed

lemma build_where_weekday:
  assumes "strip (arg_weekday r) \<noteq> []"
  shows "set (build_where nf r) =
         insert (Slot_like (strip (arg_weekday r) @ [PERCENT]))
           (set (build_where nf (r\<lparr>arg_weekday := []\<rparr>)))"
  using assms by (simp add: build_where_def Let_def keyword_def period_token_def)

text \<open>
  C7. For a weekday of the seven choices of the form, the search returns exactly those
  courses passing the other filters whose slot starts with the weekday. The instance
  below: Monday with period \<open>3\<close> finds the course in slot Monday 3-4 and not the one in
  slot Tuesday 3-4.
\<close>

theorem weekday_filter:
  assumes "wd \<in> set weekdays" and "arg_weekday r = [wd]"
  shows "found nf db r =
         filter (\<lambda>c. prefix [wd] (c_slot c)) (found nf db (r\<lparr>arg_weekday := []\<rparr>))"
proof -
  have s: "strip (arg_weekday r) = [wd]"
    using assms by (simp add: weekday_not_space)
  have "found nf db r =
        filter (passes (Slot_like [wd, PERCENT])) (found nf db (r\<lparr>arg_weekday := []\<rparr>))"
    unfolding found_select
    using build_where_weekday [of r nf] s
    by (intro select_courses_insert) simp
  also have "\<dots> = filter (\<lambda>c. prefix [wd] (c_slot c)) (found nf db (r\<lparr>arg_weekday := []\<rparr>))"
    by (rule filter_cong [OF refl]) (simp add: passes_Slot weekday_prefix [OF assms(1)])
  finally show ?thesis .
qed

theorem weekday_filter_witness:
  "0x6708 \<in> set weekdays \<and>
   found fold_fullwidth sample_db (no_filter\<lparr>arg_weekday := [0x6708], arg_period := [0x33]\<rparr>) =
     filter (\<lambda>c. prefix [0x6708] (c_slot c))
       (found fold_fullwidth sample_db (no_filter\<lparr>arg_period := [0x33]\<rparr>)) \<and>
   found fold_fullwidth sample_db (no_filter\<lparr>arg_period := [0x33]\<rparr>) = [course_mon, course_tue] \<and>
   found fold_fullwidth sample_db (no_filter\<lparr>arg_weekday := [0x6708], arg_period := [0x33]\<rparr>) =
     [course_mon] \<and>
   c_slot course_mon = [0x6708, 0x33, HYPHEN, 0x34] \<and>
   c_slot course_tue = [0x706B, 0x33, HYPHEN, 0x34]"
proof -
  let ?r = "no_filter\<lparr>arg_weekday := [0x6708], arg_period := [0x33]\<rparr>"
  have w: "(0x6708::nat) \<in> set weekdays"
    by (simp add: weekdays_def)
  have a: "arg_weekday ?r = [0x6708]"
    by simp
  have e: "?r\<lparr>arg_weekday := []\<rparr> = no_filter\<lparr>arg_period := [0x33]\<rparr>"
    by (simp add: no_filter_def)
  have f: "found fold_fullwidth sample_db (no_filter\<lparr>arg_period := [0x33]\<rparr>) = [course_mon, course_tue]"
    by (simp add: request_eval like_eval)
  have g: "found fold_fullwidth sample_db ?r = [course_mon]"
    by (simp add: request_eval like_eval)
  have s: "c_slot course_mon = [0x6708, 0x33, HYPHEN, 0x34]" "c_slot course_tue = [0x706B, 0x33, HYPHEN, 0x34]"
    by (simp_all add: course_mon_def course_tue_def)
  from weekday_filter [OF w a, of fold_fullwidth sample_db] e
  have "found fold_fullwidth sample_db ?r =
     filter (\<lambda>c. prefix [0x6708] (c_slot c))
       (found fold_fullwidth sample_db (no_filter\<lparr>arg_period := [0x33]\<rparr>))"
    by simp
  with w f g s show ?thesis by blast
qed

subsection \<open>The order of the results\<close>

lemma order_key_le: "order_key a \<le> order_key b \<longleftrightarrow> in_order a b"
  by (auto simp: order_key_def in_order_def)

lemma sorted_in_order: "sorted (map order_key cs) \<Longrightarrow> sorted_wrt in_order cs"
  by (simp add: sorted_map order_key_le [abs_def])

text \<open>
  C8. The search result and the listing of the favorites are both in ascending order of
  faculty, then term, then slot, then title, each compared lexicographically by code
  point.
\<close>

theorem results_ordered:
  "sorted_wrt in_order (found nf db r) \<and> sorted_wrt in_order (page_courses (mypage db))"
  by (simp add: sorted_in_order found_select select_courses_def mypage_def Let_def)

subsection \<open>The favorites\<close>

lemma set_insert_or_ignore: "set (insert_or_ignore cid favs) = insert cid (set favs)"
  by (auto simp: insert_or_ignore_def)

lemma distinct_insert_or_ignore: "distinct favs \<Longrightarrow> distinct (insert_or_ignore cid favs)"
  by (simp add: insert_or_ignore_def)

lemma distinct_fold_insert:
  "distinct favs \<Longrightarrow> distinct (fold insert_or_ignore ids favs)"
  by (induction ids arbitrary: favs) (simp_all add: distinct_insert_or_ignore)

lemma insert_or_ignore_twice:
  "insert_or_ignore cid (insert_or_ignore cid favs) = insert_or_ignore cid favs"
  by (simp add: insert_or_ignore_def)

lemma distinct_after:
  assumes "distinct (favorites db)"
  shows "distinct (favorites (after D op db))"
proof (cases op)
  case (Add cid)
  then show ?thesis using assms by (simp add: favorite_def distinct_insert_or_ignore)
next
  case (Remove cid)
  then show ?thesis using assms by (simp add: unfavorite_def)
next
  case (Bulk_add ids)
  then show ?thesis using assms
    by (simp add: bulk_fav_def Let_def distinct_fold_insert split: sum.splits)
next
  case Clear
  then show ?thesis by (simp add: clear_favs_def)
qed

lemma distinct_run:
  "distinct (favorites db) \<Longrightarrow> distinct (favorites (run D ops db))"
  unfolding run_def
  by (induction ops arbitrary: db) (simp_all add: distinct_after)

lemma one_row: "distinct favs \<Longrightarrow> cid \<in> set favs \<Longrightarrow> length (filter (\<lambda>x. x = cid) favs) = 1"
  by (induction favs) (auto simp: filter_empty_conv)

lemma favorite_out_of_range:
  "\<not> sqlite_integer cid \<Longrightarrow> favorite db cid = (Add_failed OverflowError, db)"
  by (simp add: favorite_def)

lemmas favorites_eval =
  run_def favorite_def unfavorite_def clear_favs_def bulk_fav_def insert_or_ignore_def
  sqlite_integer_def isdigit_def py_int_def sample_digits_def strip_def is_space_def Let_def
  sample_db_def empty_db_def

text \<open>
  C5, amended. From a store with at most one favorite row per course id, every sequence
  of add, remove, bulk add and clear requests leads to a store with at most one row per
  course id; adding the same id twice leaves the store as adding it once does; and when
  the id is a signed 64-bit integer, which is what SQLite stores, the store then holds
  exactly one row for the id.
\<close>

theorem favorites_unique:
  assumes "distinct (favorites db)"
  shows "distinct (favorites (run D ops db)) \<and>
         snd (favorite (snd (favorite db cid)) cid) = snd (favorite db cid) \<and>
         (sqlite_integer cid \<longrightarrow>
            length (filter (\<lambda>x. x = cid) (favorites (snd (favorite (snd (favorite db cid)) cid)))) = 1)"
proof (intro conjI impI)
  show "distinct (favorites (run D ops db))"
    using assms by (rule distinct_run)
  show "snd (favorite (snd (favorite db cid)) cid) = snd (favorite db cid)"
    by (simp add: favorite_def insert_or_ignore_twice)
  show "length (filter (\<lambda>x. x = cid) (favorites (snd (favorite (snd (favorite db cid)) cid)))) = 1"
    if "sqlite_integer cid"
  proof (rule one_row)
    show "distinct (favorites (snd (favorite (snd (favorite db cid)) cid)))"
      using assms by (simp add: favorite_def distinct_insert_or_ignore)
    show "cid \<in> set (favorites (snd (favorite (snd (favorite db cid)) cid)))"
      using that by (simp add: favorite_def set_insert_or_ignore)
  qed
qed

theorem favorites_unique_witness:
  "distinct (favorites sample_db) \<and>
   distinct (favorites (run sample_digits
      [Add 5, Add 5, Bulk_add [0x31, COMMA, 0x32, COMMA, 0x61, COMMA, 0x33], Remove 2, Clear, Add 9]
      sample_db)) \<and>
   sqlite_integer 5 \<and>
   length (filter (\<lambda>x. x = 5) (favorites (snd (favorite (snd (favorite sample_db 5)) 5)))) = 1 \<and>
   favorites (snd (favorite (snd (favorite sample_db 5)) 5)) = [2, 7, 5]"
proof -
  have d: "distinct (favorites sample_db)"
    by (simp add: sample_db_def)
  have i: "sqlite_integer 5"
    by (simp add: sqlite_integer_def)
  have f: "favorites (snd (favorite (snd (favorite sample_db 5)) 5)) = [2, 7, 5]"
    by (simp add: favorites_eval)
  from favorites_unique [OF d, of sample_digits
      "[Add 5, Add 5, Bulk_add [0x31, COMMA, 0x32, COMMA, 0x61, COMMA, 0x33], Remove 2, Clear, Add 9]" 5]
    d i f
  show ?thesis by blast
qed

text \<open>
  C5 as stated fails for an id that SQLite cannot hold: the insert raises, \<open>favorite\<close>
  reports the failure, and after two adds the store holds no row for the id.
\<close>

theorem favorites_unique_counterexample:
  "favorite empty_db (2 ^ 63) = (Add_failed OverflowError, empty_db) \<and>
   length (filter (\<lambda>x. x = 2 ^ 63)
     (favorites (snd (favorite (snd (favorite empty_db (2 ^ 63))) (2 ^ 63))))) = 0"
  by (simp add: favorites_eval)

text \<open>
  C9, amended. For every course id that is a signed 64-bit integer, with or without a
  row in \<open>courses\<close>, adding it succeeds: the catalog is not consulted and not changed,
  the id is a favorite afterwards, and it is an orphaned favorite when no course has
  the id.
\<close>

theorem favorite_unvalidated:
  assumes "sqlite_integer cid"
  shows "fst (favorite db cid) = Added \<and>
         cid \<in> set (favorites (snd (favorite db cid))) \<and>
         courses (snd (favorite db cid)) = courses db \<and>
         (cid \<notin> c_id ` set (courses db) \<longrightarrow> orphaned (snd (favorite db cid)) cid)"
  using assms by (simp add: favorite_def set_insert_or_ignore orphaned_def)

theorem favorite_unvalidated_witness:
  "sqlite_integer 7 \<and> 7 \<notin> c_id ` set (courses empty_db) \<and>
   fst (favorite empty_db 7) = Added \<and>
   7 \<in> set (favorites (snd (favorite empty_db 7))) \<and>
   courses (snd (favorite empty_db 7)) = courses empty_db \<and>
   orphaned (snd (favorite empty_db 7)) 7"
proof -
  have i: "sqlite_integer 7"
    by (simp add: sqlite_integer_def)
  have n: "7 \<notin> c_id ` set (courses empty_db)"
    by (simp add: empty_db_def)
  from favorite_unvalidated [OF i, of empty_db] i n show ?thesis by blast
qed

text \<open>
  C9 as stated fails for the id \<open>2 ^ 63\<close>, which the route accepts: the add reports a
  failure and stores nothing.
\<close>

theorem favorite_unvalidated_counterexample:
  "\<not> sqlite_integer (2 ^ 63) \<and>
   fst (favorite empty_db (2 ^ 63)) = Add_failed OverflowError \<and>
   favorites (snd (favorite empty_db (2 ^ 63))) = []"
  by (simp add: favorites_eval)

subsection \<open>The listing of the favorites\<close>

lemma set_join_favorites:
  "set (join_favorites cs favs) = {c \<in> set cs. c_id c \<in> set favs}"
  by (auto simp: join_favorites_def)

lemma length_filter_disj:
  "(\<And>x. x \<in> set xs \<Longrightarrow> \<not> (P x \<and> Q x)) \<Longrightarrow>
   length (filter (\<lambda>x. P x \<or> Q x) xs) = length (filter P xs) + length (filter Q xs)"
  by (induction xs) auto

lemma length_join_favorites:
  "distinct (map c_id cs) \<Longrightarrow>
   length (join_favorites cs favs) = length (filter (\<lambda>f. f \<in> c_id ` set cs) favs)"
proof (induction cs)
  case Nil
  then show ?case by (simp add: join_favorites_def)
next
  case (Cons c cs)
  have "length (join_favorites (c # cs) favs) =
        length (filter (\<lambda>f. f = c_id c) favs) + length (join_favorites cs favs)"
    by (simp add: join_favorites_def)
  also have "\<dots> = length (filter (\<lambda>f. f = c_id c) favs) +
                   length (filter (\<lambda>f. f \<in> c_id ` set cs) favs)"
    using Cons by simp
  also have "\<dots> = length (filter (\<lambda>f. f = c_id c \<or> f \<in> c_id ` set cs) favs)"
    using Cons.prems by (subst length_filter_disj) auto
  finally show ?case by simp
qed

text \<open>
  C10. The listing holds exactly the courses of the catalog that are favorites; its
  total is the number of listed courses; an orphaned favorite stays in the store and
  is not listed; and with unique course ids the total counts exactly the favorites
  that are not orphaned.
\<close>

theorem mypage_omits_orphans:
  "set (page_courses (mypage db)) = {c \<in> set (courses db). c_id c \<in> set (favorites db)} \<and>
   page_total (mypage db) = length (page_courses (mypage db)) \<and>
   (orphaned db cid \<longrightarrow>
      cid \<in> set (favorites db) \<and> cid \<notin> c_id ` set (page_courses (mypage db))) \<and>
   (distinct (map c_id (courses db)) \<longrightarrow>
      page_total (mypage db) = length (filter (\<lambda>f. \<not> orphaned db f) (favorites db)))"
proof (intro conjI impI)
  show s: "set (page_courses (mypage db)) = {c \<in> set (courses db). c_id c \<in> set (favorites db)}"
    by (simp add: mypage_def Let_def set_join_favorites)
  show "page_total (mypage db) = length (page_courses (mypage db))"
    by (simp add: mypage_def Let_def)
  show "cid \<in> set (favorites db)" if "orphaned db cid"
    using that by (simp add: orphaned_def)
  show "cid \<notin> c_id ` set (page_courses (mypage db))" if "orphaned db cid"
    using that unfolding s by (auto simp: orphaned_def)
  show "page_total (mypage db) = length (filter (\<lambda>f. \<not> orphaned db f) (favorites db))"
    if "distinct (map c_id (courses db))"
  proof -
    have "filter (\<lambda>f. \<not> orphaned db f) (favorites db) =
          filter (\<lambda>f. f \<in> c_id ` set (courses db)) (favorites db)"
      by (rule filter_cong [OF refl]) (simp add: orphaned_def)
    then show ?thesis
      using length_join_favorites [OF that, of "favorites db"]
      by (simp add: mypage_def Let_def)
  qed
qed

theorem mypage_omits_orphans_witness:
  "orphaned sample_db 7 \<and> distinct (map c_id (courses sample_db)) \<and>
   7 \<in> set (favorites sample_db) \<and>
   7 \<notin> c_id ` set (page_courses (mypage sample_db)) \<and>
   page_courses (mypage sample_db) = [course_tue] \<and>
   page_total (mypage sample_db) = 1 \<and>
   page_total (mypage sample_db) =
     length (filter (\<lambda>f. \<not> orphaned sample_db f) (favorites sample_db))"
proof -
  have o: "orphaned sample_db 7"
    by (simp add: orphaned_def sample_db_def course_mon_def course_tue_def)
  have d: "distinct (map c_id (courses sample_db))"
    by (simp add: sample_db_def course_mon_def course_tue_def)
  have p: "page_courses (mypage sample_db) = [course_tue]"
    by (simp add: mypage_def join_favorites_def Let_def sample_db_def course_mon_def course_tue_def)
  have t: "page_total (mypage sample_db) = 1"
    by (simp add: mypage_def join_favorites_def Let_def sample_db_def course_mon_def course_tue_def)
  from mypage_omits_orphans [of sample_db 7] o d p t show ?thesis by blast
qed

subsection \<open>The normalizer\<close>

lemma fold_fullwidth_idem: "fold_fullwidth (fold_fullwidth s) = fold_fullwidth s"
  by (induction s) (auto simp: fold_fullwidth_def)

text \<open>
  C6. Given that the NFKC function of the Unicode database is idempotent, \<open>z2h\<close> is
  idempotent; \<open>None\<close> and the empty string are returned as they are. \<open>z2h\<close> is a total
  function of its argument alone.
\<close>

theorem z2h_idempotent:
  assumes "\<forall>s. nf (nf s) = nf s"
  shows "z2h nf (z2h nf x) = z2h nf x \<and> z2h nf None = None \<and> z2h nf (Some []) = Some []"
  using assms by (cases x) (simp_all add: z2h_def z2h_text_def)

theorem z2h_idempotent_witness:
  "(\<forall>s. fold_fullwidth (fold_fullwidth s) = fold_fullwidth s) \<and>
   z2h fold_fullwidth (Some [0xFF21, 0x3000, 0x42]) = Some [0x41, 0x20, 0x42] \<and>
   z2h fold_fullwidth (z2h fold_fullwidth (Some [0xFF21, 0x3000, 0x42])) =
     z2h fold_fullwidth (Some [0xFF21, 0x3000, 0x42]) \<and>
   z2h fold_fullwidth None = None \<and> z2h fold_fullwidth (Some []) = Some []"
proof -
  have i: "\<forall>s. fold_fullwidth (fold_fullwidth s) = fold_fullwidth s"
    by (simp add: fold_fullwidth_idem)
  have v: "z2h fold_fullwidth (Some [0xFF21, 0x3000, 0x42]) = Some [0x41, 0x20, 0x42]"
    by (simp add: z2h_def z2h_text_def fold_fullwidth_def)
  from z2h_idempotent [OF i, of "Some [0xFF21, 0x3000, 0x42]"] i v show ?thesis by blast
qed

subsection \<open>Adding several favorites\<close>

text \<open>
  C4 at its failing input. The token U+00B2 (superscript two) passes \<open>isdigit\<close> and is
  no decimal digit, so \<open>int\<close> raises \<open>ValueError\<close> and the request of the tokens \<open>1\<close>, U+00B2 and \<open>3\<close> ends in
  the exception instead of adding 1 and 3. An id beyond the signed 64-bit range ends the
  request in \<open>OverflowError\<close>. The scenario \<open>1,2,abc,3\<close> adds 1, 2 and 3 and reports 3.
\<close>

theorem bulk_fav_superscript:
  "isdigit sample_digits [0xB2] \<and>
   py_int sample_digits [0xB2] = Inl ValueError \<and>
   bulk_fav sample_digits empty_db [0x31, COMMA, 0xB2, COMMA, 0x33] = Inl ValueError \<and>
   bulk_fav sample_digits empty_db
     [0x39, 0x32, 0x32, 0x33, 0x33, 0x37, 0x32, 0x30, 0x33, 0x36,
      0x38, 0x35, 0x34, 0x37, 0x37, 0x35, 0x38, 0x30, 0x38] = Inl OverflowError \<and>
   bulk_fav sample_digits empty_db [0x31, COMMA, 0x32, COMMA, 0x61, 0x62, 0x63, COMMA, 0x33] =
     Inr (Bulk_added 3, empty_db\<lparr>favorites := [1, 2, 3]\<rparr>)"
  by (simp add: favorites_eval)

end
